theory Spec2Isabelle
  imports Main
begin

section \<open>The conversation history table (cogs/aichat.py)\<close>

text \<open>
  Modelled from the spec: the schema of table \<^verbatim>\<open>ai_chat_history\<close>, whose
  \<^verbatim>\<open>CREATE TABLE\<close> statement is not part of the source files at hand. The spec gives
  an auto-incrementing key column \<^verbatim>\<open>id\<close> and the columns \<^verbatim>\<open>user_id\<close>,
  \<^verbatim>\<open>channel_name\<close>, \<^verbatim>\<open>role\<close>, \<^verbatim>\<open>content\<close>. The columns carry the prefix
  \<open>r\<close> here, so that \<open>role\<close> and \<open>content\<close> stay free for the message dictionaries
  that \<^verbatim>\<open>get_history\<close> builds. Text is a byte string (UTF-8).
\<close>

record chat_row =
  rid :: nat
  ruser_id :: int
  rchannel_name :: string
  rrole :: string
  rcontent :: string

text \<open>The table is the list of its committed rows.\<close>

type_synonym db = "chat_row list"

text \<open>
  Modelled from the spec: the key of a new row is one more than the largest key in the
  table (and 1 in an empty table), as an auto-incrementing integer key is assigned.
\<close>

definition next_id :: "db \<Rightarrow> nat" where
  "next_id d = Suc (foldr max (map rid d) 0)"

text \<open>
  \<^verbatim>\<open>INSERT INTO ai_chat_history (user_id, channel_name, role, content) VALUES (?, ?, ?, ?)\<close>
\<close>

definition insert_row :: "db \<Rightarrow> int \<Rightarrow> string \<Rightarrow> string \<Rightarrow> string \<Rightarrow> db" where
  "insert_row d uid ch r c =
     d @ [\<lparr>rid = next_id d, ruser_id = uid, rchannel_name = ch, rrole = r, rcontent = c\<rparr>]"

text \<open>\<^verbatim>\<open>WHERE user_id = ? AND channel_name = ?\<close>\<close>

definition key_rows :: "db \<Rightarrow> int \<Rightarrow> string \<Rightarrow> chat_row list" where
  "key_rows d uid ch = filter (\<lambda>x. ruser_id x = uid \<and> rchannel_name x = ch) d"

text \<open>\<^verbatim>\<open>ORDER BY id DESC\<close>\<close>

definition order_by_id_desc :: "chat_row list \<Rightarrow> chat_row list" where
  "order_by_id_desc xs = rev (sort_key rid xs)"

text \<open>
  The query of \<^verbatim>\<open>get_history\<close>:
  \<^verbatim>\<open>SELECT role, content FROM ai_chat_history WHERE user_id = ? AND channel_name = ?
  ORDER BY id DESC LIMIT ?\<close>
\<close>

definition select_recent :: "db \<Rightarrow> int \<Rightarrow> string \<Rightarrow> nat \<Rightarrow> (string \<times> string) list" where
  "select_recent d uid ch lim =
     map (\<lambda>x. (rrole x, rcontent x)) (take lim (order_by_id_desc (key_rows d uid ch)))"

text \<open>
  The query of \<^verbatim>\<open>save_message\<close>:
  \<^verbatim>\<open>SELECT id FROM ai_chat_history WHERE user_id = ? AND channel_name = ?
  ORDER BY id DESC LIMIT -1 OFFSET ?\<close>
  (a negative limit is no limit).
\<close>

definition select_old_ids :: "db \<Rightarrow> int \<Rightarrow> string \<Rightarrow> nat \<Rightarrow> nat list" where
  "select_old_ids d uid ch off = map rid (drop off (order_by_id_desc (key_rows d uid ch)))"

text \<open>\<^verbatim>\<open>DELETE FROM ai_chat_history WHERE id = ?\<close>, and \<^verbatim>\<open>executemany\<close> over a list of keys.\<close>

definition delete_by_id :: "db \<Rightarrow> nat \<Rightarrow> db" where
  "delete_by_id d i = filter (\<lambda>x. rid x \<noteq> i) d"

definition delete_many :: "db \<Rightarrow> nat list \<Rightarrow> db" where
  "delete_many d ids = foldl delete_by_id d ids"

subsection \<open>Storage faults\<close>

text \<open>
  Every call into \<^verbatim>\<open>sqlite3\<close> may raise. The steps of the two methods at which the
  storage can raise are named here; a call is run with the step at which the storage
  raises, if any (\<open>None\<close>: it never raises). One step is enough, since the first
  exception leaves the \<^verbatim>\<open>try\<close> block. \<open>Connect\<close> stands for
  \<^verbatim>\<open>sqlite3.connect\<close> and \<^verbatim>\<open>conn.cursor()\<close>, \<open>Execute_select\<close> for the
  \<^verbatim>\<open>SELECT\<close> and its \<^verbatim>\<open>fetchall\<close>.
\<close>

datatype db_step =
  Connect | Execute_insert | Commit_insert | Execute_select | Execute_delete | Commit_delete
  | Close

datatype error = Sqlite_error db_step

subsection \<open>Constants\<close>

definition HISTORY_LENGTH :: nat where
  "HISTORY_LENGTH = 10"

text \<open>A message as it is sent to the chat model: a dictionary with keys \<^verbatim>\<open>role\<close> and \<^verbatim>\<open>content\<close>.\<close>

record message =
  role :: string
  content :: string

definition SYSTEM_PROMPT :: string where
  "SYSTEM_PROMPT =
    ''Jeste'' @ [CHR 0xC5, CHR 0x9B] @
    '' realistycznym polskim nastolatkiem (ok. 17 lat). Masz mn'' @ [CHR 0xC3, CHR 0xB3] @
    ''stwo zainteresowa'' @ [CHR 0xC5, CHR 0x84] @
    '': gry komputerowe i planszowe, sport, muzyka, filmy, seriale, anime, programowanie, podr'' @
    [CHR 0xC3, CHR 0xB3, CHR 0xC5, CHR 0xBC] @
    ''e, memy, gotowanie, motoryzacja, nauka, historia, technologia i wiele innych '' @
    [CHR 0xE2, CHR 0x80, CHR 0x93] @ '' mo'' @ [CHR 0xC5, CHR 0xBC] @ ''esz rozmawia'' @
    [CHR 0xC4, CHR 0x87] @ '' na ka'' @ [CHR 0xC5, CHR 0xBC] @ ''dy temat, a rozmowa z Tob'' @
    [CHR 0xC4, CHR 0x85] @ '' nigdy nie jest nudna. M'' @ [CHR 0xC3, CHR 0xB3] @ ''wisz m'' @
    [CHR 0xC5, CHR 0x82] @ ''odzie'' @ [CHR 0xC5, CHR 0xBC] @
    ''owym, swobodnym, naturalnym stylem, czasem wtr'' @ [CHR 0xC4, CHR 0x85] @
    ''casz potoczne zwroty i emotki (np. XD, git, spoko, ej, lol), ale nie przesadzasz '' @
    [CHR 0xE2, CHR 0x80, CHR 0x93] @ '' starasz si'' @ [CHR 0xC4, CHR 0x99] @ '', by ka'' @
    [CHR 0xC5, CHR 0xBC] @ ''da odpowied'' @ [CHR 0xC5, CHR 0xBA] @ '' by'' @
    [CHR 0xC5, CHR 0x82] @ ''a autentyczna, lu'' @ [CHR 0xC5, CHR 0xBA] @
    ''na, ale nie karykaturalna. Gdy rozmowa schodzi na temat relacji, uczu'' @
    [CHR 0xC4, CHR 0x87] @ '' lub zakochania, stajesz si'' @ [CHR 0xC4, CHR 0x99] @
    '' dobrym romantykiem: jeste'' @ [CHR 0xC5, CHR 0x9B] @ '' empatyczny, wra'' @
    [CHR 0xC5, CHR 0xBC] @ ''liwy i wspieraj'' @ [CHR 0xC4, CHR 0x85] @
    ''cy, potrafisz okaza'' @ [CHR 0xC4, CHR 0x87] @ '' zrozumienie i napisa'' @
    [CHR 0xC4, CHR 0x87] @ '' co'' @ [CHR 0xC5, CHR 0x9B] @ '' mi'' @ [CHR 0xC5, CHR 0x82] @
    ''ego lub da'' @ [CHR 0xC4, CHR 0x87] @ '' porad'' @ [CHR 0xC4, CHR 0x99] @
    ''. Zawsze reagujesz tak, jak prawdziwy, otwarty i ogarni'' @ [CHR 0xC4, CHR 0x99] @
    ''ty nastolatek z Discorda '' @ [CHR 0xE2, CHR 0x80, CHR 0x93] @ '' czasem '' @
    [CHR 0xC5, CHR 0xBC] @ ''artujesz, czasem jeste'' @ [CHR 0xC5, CHR 0x9B] @ '' powa'' @
    [CHR 0xC5, CHR 0xBC] @ ''ny, zale'' @ [CHR 0xC5, CHR 0xBC] @ ''nie od tonu rozmowy.''"

definition system_message :: message where
  "system_message = \<lparr>role = ''system'', content = SYSTEM_PROMPT\<rparr>"

subsection \<open>get_history\<close>

text \<open>
  The body of the \<^verbatim>\<open>try\<close> block of \<^verbatim>\<open>get_history\<close>, started with the local list
  \<open>history\<close>. It returns the exception raised, if any, and \<open>history\<close> as it stands when
  the block is left. The limit of the query is \<^verbatim>\<open>HISTORY_LENGTH*2\<close>; the constant is the
  parameter \<open>hl\<close>. The query only reads, so the table is returned as it was.
\<close>

definition get_history_try ::
  "nat \<Rightarrow> db_step option \<Rightarrow> db \<Rightarrow> int \<Rightarrow> string \<Rightarrow> message list
     \<Rightarrow> (error option \<times> message list) \<times> db" where
  "get_history_try hl fault d uid ch history =
     (if fault = Some Connect then ((Some (Sqlite_error Connect), history), d)
      else if fault = Some Execute_select
        then ((Some (Sqlite_error Execute_select), history), d)
      else
        let rows = select_recent d uid ch (hl * 2);
            history' = foldl (\<lambda>h row. h @ [\<lparr>role = fst row, content = snd row\<rparr>])
                         history (rev rows)
        in if fault = Some Close then ((Some (Sqlite_error Close), history'), d)
           else ((None, history'), d))"

text \<open>
  \<^verbatim>\<open>get_history\<close>: the handler \<^verbatim>\<open>except Exception\<close> prints the exception and falls
  through to \<^verbatim>\<open>return history\<close>, so the method returns a list in every case. The result
  type says so: \<open>Inl\<close> would be an exception that reaches the caller.
\<close>

definition get_history ::
  "nat \<Rightarrow> db_step option \<Rightarrow> db \<Rightarrow> int \<Rightarrow> string \<Rightarrow> (error + message list) \<times> db" where
  "get_history hl fault d uid ch =
     (case get_history_try hl fault d uid ch [system_message] of
        ((_, history), d') \<Rightarrow> (Inr history, d'))"

subsection \<open>save_message\<close>

text \<open>
  The body of the \<^verbatim>\<open>try\<close> block of \<^verbatim>\<open>save_message\<close>. The insert is committed on its
  own before the trim. An exception before that commit leaves the table as it was; an
  exception between that commit and the commit of the deletions leaves the inserted row
  and loses the uncommitted deletions.
\<close>

definition save_message_try ::
  "nat \<Rightarrow> db_step option \<Rightarrow> db \<Rightarrow> int \<Rightarrow> string \<Rightarrow> string \<Rightarrow> string
     \<Rightarrow> error option \<times> db" where
  "save_message_try hl fault d uid ch r c =
     (if fault = Some Connect then (Some (Sqlite_error Connect), d)
      else if fault = Some Execute_insert then (Some (Sqlite_error Execute_insert), d)
      else if fault = Some Commit_insert then (Some (Sqlite_error Commit_insert), d)
      else
        let d1 = insert_row d uid ch r c
        in if fault = Some Execute_select then (Some (Sqlite_error Execute_select), d1)
           else
             let old_ids = select_old_ids d1 uid ch (hl * 2)
             in if old_ids \<noteq> [] then
                  (if fault = Some Execute_delete
                     then (Some (Sqlite_error Execute_delete), d1)
                   else if fault = Some Commit_delete
                     then (Some (Sqlite_error Commit_delete), d1)
                   else
                     let d2 = delete_many d1 old_ids
                     in if fault = Some Close then (Some (Sqlite_error Close), d2)
                        else (None, d2))
                else if fault = Some Close then (Some (Sqlite_error Close), d1)
                else (None, d1))"

text \<open>
  \<^verbatim>\<open>save_message\<close>: the handler \<^verbatim>\<open>except Exception\<close> prints the exception and the
  method returns \<^verbatim>\<open>None\<close>.
\<close>

definition save_message ::
  "nat \<Rightarrow> db_step option \<Rightarrow> db \<Rightarrow> int \<Rightarrow> string \<Rightarrow> string \<Rightarrow> string
     \<Rightarrow> (error + unit) \<times> db" where
  "save_message hl fault d uid ch r c =
     (case save_message_try hl fault d uid ch r c of
        (_, d') \<Rightarrow> (Inr (), d'))"

subsection \<open>Stored turns and call sequences\<close>

text \<open>
  The stored turns of a key in chronological order, which is the order of the key
  column (the spec's \<open>sequence\<close>).
\<close>

definition stored_turns :: "db \<Rightarrow> int \<Rightarrow> string \<Rightarrow> chat_row list" where
  "stored_turns d uid ch = sort_key rid (key_rows d uid ch)"

definition turn_message :: "chat_row \<Rightarrow> message" where
  "turn_message x = \<lparr>role = rrole x, content = rcontent x\<rparr>"

text \<open>
  The spec's \<open>fetch_recent\<close>, written from its words and not from the code: the most
  recent \<open>limit\<close> turns of the key, oldest first, and all of them when fewer exist.
\<close>

definition fetch_recent :: "db \<Rightarrow> int \<Rightarrow> string \<Rightarrow> nat \<Rightarrow> message list" where
  "fetch_recent d uid ch limit =
     map turn_message
       (drop (length (stored_turns d uid ch) - limit) (stored_turns d uid ch))"

text \<open>
  A sequence of \<^verbatim>\<open>save_message\<close> calls on one key, each a pair of role and content, run
  without a storage fault: the list of the tables after each call.
\<close>

fun save_trace :: "nat \<Rightarrow> db \<Rightarrow> int \<Rightarrow> string \<Rightarrow> (string \<times> string) list \<Rightarrow> db list" where
  "save_trace hl d uid ch [] = []"
| "save_trace hl d uid ch (m # ms) =
     (let d' = snd (save_message hl None d uid ch (fst m) (snd m))
      in d' # save_trace hl d' uid ch ms)"

definition six_turns :: "(string \<times> string) list" where
  "six_turns = [(''user'', ''u1''), (''assistant'', ''a1''), (''user'', ''u2''),
     (''assistant'', ''a2''), (''user'', ''u3''), (''assistant'', ''a3'')]"

text \<open>A table with three turns of user 7 and one turn of user 8, all in channel \<open>c\<close>.\<close>

definition sample_db :: db where
  "sample_db =
     [\<lparr>rid = 1, ruser_id = 7, rchannel_name = ''c'', rrole = ''user'', rcontent = ''u1''\<rparr>,
      \<lparr>rid = 2, ruser_id = 8, rchannel_name = ''c'', rrole = ''user'', rcontent = ''x1''\<rparr>,
      \<lparr>rid = 3, ruser_id = 7, rchannel_name = ''c'', rrole = ''assistant'', rcontent = ''a1''\<rparr>,
      \<lparr>rid = 4, ruser_id = 7, rchannel_name = ''c'', rrole = ''user'', rcontent = ''u2''\<rparr>]"

text \<open>
  A sequence of \<^verbatim>\<open>save_message\<close> calls on one key in which the storage may raise: each
  call is given with the step at which the storage raises in it, if any, and with its
  role and content. The result is the list of the tables after each call.
\<close>

fun save_calls ::
  "nat \<Rightarrow> db \<Rightarrow> int \<Rightarrow> string \<Rightarrow> (db_step option \<times> string \<times> string) list \<Rightarrow> db list" where
  "save_calls hl d uid ch [] = []"
| "save_calls hl d uid ch (m # ms) =
     (let d' = snd (save_message hl (fst m) d uid ch (fst (snd m)) (snd (snd m)))
      in d' # save_calls hl d' uid ch ms)"

text \<open>
  The steps of \<^verbatim>\<open>save_message\<close> between the commit of the insert and the commit of the
  deletions: an exception there ends the call after the new row is committed and before
  the trim is.
\<close>

definition trim_interrupted :: "db_step option \<Rightarrow> bool" where
  "trim_interrupted fault =
     (fault = Some Execute_select \<or> fault = Some Execute_delete \<or> fault = Some Commit_delete)"

text \<open>Three calls on an empty table; in the third the \<^verbatim>\<open>SELECT\<close> of the trim raises.\<close>

definition interrupted_calls :: "(db_step option \<times> string \<times> string) list" where
  "interrupted_calls =
     [(None, ''user'', ''u1''), (None, ''assistant'', ''a1''),
      (Some Execute_select, ''user'', ''u2'')]"

text \<open>Four calls; the storage raises on connecting in the second and on closing in the last.\<close>

definition harmless_calls :: "(db_step option \<times> string \<times> string) list" where
  "harmless_calls =
     [(None, ''user'', ''u1''), (Some Connect, ''assistant'', ''a1''),
      (None, ''assistant'', ''a1''), (Some Close, ''user'', ''u2'')]"

section \<open>The gift code client (cogs/gift_operationsapi.py)\<close>

text \<open>
  Modelled from the spec: the local tables \<^verbatim>\<open>gift_codes\<close> and \<^verbatim>\<open>user_giftcodes\<close>,
  whose schema is not part of the source files at hand. The code reads the columns
  \<^verbatim>\<open>giftcode\<close> and \<^verbatim>\<open>date\<close> of the first and deletes from both by
  \<^verbatim>\<open>giftcode\<close>; the other columns of \<^verbatim>\<open>user_giftcodes\<close> are the type \<open>'u\<close>.
\<close>

record 'u gift_db =
  gift_codes :: "(string \<times> string) list"
  user_giftcodes :: "(string \<times> 'u) list"

text \<open>What \<^verbatim>\<open>json.loads\<close> returns. The value of a number plays no part here.\<close>

datatype json =
  JNull | JBool bool | JNumber | JString string | JArray "json list"
  | JObject "(string \<times> json) list"

fun is_infix :: "string \<Rightarrow> string \<Rightarrow> bool" where
  "is_infix p [] = (p = [])"
| "is_infix p (c # cs) = (take (length p) (c # cs) = p \<or> is_infix p cs)"

text \<open>
  \<^verbatim>\<open>'success' in result\<close>: a key of a dictionary, an element of a list, a substring of a
  string; on any other value Python raises \<^verbatim>\<open>TypeError\<close> (\<open>None\<close> here).
\<close>

fun contains_success :: "json \<Rightarrow> bool option" where
  "contains_success (JObject kvs) = Some (''success'' \<in> set (map fst kvs))"
| "contains_success (JArray xs) = Some (JString ''success'' \<in> set xs)"
| "contains_success (JString s) = Some (is_infix ''success'' s)"
| "contains_success _ = None"

text \<open>
  The answer to the \<^verbatim>\<open>DELETE\<close> request: the request or the reading of the body
  raises, or there is a status and a body.
\<close>

datatype http_reply = Request_failed | Response nat string

text \<open>
  \<^verbatim>\<open>remove_giftcode\<close>. The environment is given by \<open>json_loads\<close> (\<open>None\<close> when
  \<^verbatim>\<open>json.loads\<close> raises), by the answer \<open>reply\<close> the remote API would give, and by
  \<open>db_fault\<close> (the local deletions or their commit raise). The result is the returned
  boolean, the committed tables, and the list of codes for which a \<^verbatim>\<open>DELETE\<close> request
  was issued. Every exception ends in the outer handler, which returns \<^verbatim>\<open>False\<close>.
\<close>

definition remove_giftcode ::
  "(string \<Rightarrow> json option) \<Rightarrow> http_reply \<Rightarrow> bool \<Rightarrow> 'u gift_db \<Rightarrow> string \<Rightarrow> bool
     \<Rightarrow> bool \<times> 'u gift_db \<times> string list" where
  "remove_giftcode json_loads reply db_fault g giftcode from_validation =
     (if \<not> from_validation then (False, g, [])
      else
        case reply of
          Request_failed \<Rightarrow> (False, g, [giftcode])
        | Response status response_text \<Rightarrow>
            if status = 200 then
              (if response_text = [] then (False, g, [giftcode])
               else
                 case json_loads response_text of
                   None \<Rightarrow> (False, g, [giftcode])
                 | Some result \<Rightarrow>
                     (case contains_success result of
                        None \<Rightarrow> (False, g, [giftcode])
                      | Some success \<Rightarrow>
                          if success then
                            (if db_fault then (False, g, [giftcode])
                             else
                               (True,
                                g\<lparr>gift_codes := filter (\<lambda>x. fst x \<noteq> giftcode) (gift_codes g),
                                  user_giftcodes :=
                                    filter (\<lambda>x. fst x \<noteq> giftcode) (user_giftcodes g)\<rparr>,
                                [giftcode]))
                          else (False, g, [giftcode])))
            else (False, g, [giftcode]))"

section \<open>Lemmas on the table operations\<close>

lemma delete_many_filter: "delete_many d ids = filter (\<lambda>x. rid x \<notin> set ids) d"
  unfolding delete_many_def
proof (induction ids arbitrary: d)
  case Nil
  show ?case by simp
next
  case (Cons i ids)
  have "foldl delete_by_id d (i # ids) =
      filter (\<lambda>x. rid x \<notin> set ids) (delete_by_id d i)"
    by (simp add: Cons.IH)
  also have "\<dots> = filter (\<lambda>x. rid x \<notin> set (i # ids)) d"
    by (auto simp add: delete_by_id_def intro: filter_cong)
  finally show ?case .
qed

lemma foldr_max_ge: "x \<in> set ns \<Longrightarrow> x \<le> foldr max ns (0::nat)"
  by (induction ns) auto

lemma next_id_gt: "x \<in> set d \<Longrightarrow> rid x < next_id d"
  unfolding next_id_def using foldr_max_ge [of "rid x" "map rid d"] by auto

lemma distinct_insert_row:
  assumes "distinct (map rid d)"
  shows "distinct (map rid (insert_row d uid ch r c))"
proof -
  have "next_id d \<notin> rid ` set d"
    using next_id_gt [of _ d] by fastforce
  with assms show ?thesis
    by (simp add: insert_row_def)
qed

lemma key_rows_filter: "key_rows (filter P d) uid ch = filter P (key_rows d uid ch)"
  by (auto simp: key_rows_def intro: filter_cong)

lemma stored_turns_filter: "stored_turns (filter P d) uid ch = filter P (stored_turns d uid ch)"
  by (simp add: stored_turns_def key_rows_filter filter_sort)

lemma length_stored_turns: "length (stored_turns d uid ch) = length (key_rows d uid ch)"
  by (simp add: stored_turns_def)

lemma set_stored_turns: "set (stored_turns d uid ch) = set (key_rows d uid ch)"
  by (simp add: stored_turns_def)




lemma select_old_ids_set:
  "set (select_old_ids d uid ch n) =
     rid ` set (take (length (stored_turns d uid ch) - n) (stored_turns d uid ch))"
  by (simp add: select_old_ids_def order_by_id_desc_def stored_turns_def drop_rev)

text \<open>Deleting every element whose key occurs among the first \<open>k\<close> leaves at most the rest.\<close>

lemma filter_old_split:
  "filter (\<lambda>x. f x \<notin> f ` set (take k xs)) xs =
     filter (\<lambda>x. f x \<notin> f ` set (take k xs)) (drop k xs)"
proof -
  have "filter (\<lambda>x. f x \<notin> f ` set (take k xs)) (take k xs) = []"
    by (simp add: filter_empty_conv)
  moreover have "filter (\<lambda>x. f x \<notin> f ` set (take k xs)) xs =
      filter (\<lambda>x. f x \<notin> f ` set (take k xs)) (take k xs)
      @ filter (\<lambda>x. f x \<notin> f ` set (take k xs)) (drop k xs)"
    by (metis append_take_drop_id filter_append)
  ultimately show ?thesis by simp
qed

lemma filter_old_upper:
  "length (filter (\<lambda>x. f x \<notin> f ` set (take k xs)) xs) \<le> length xs - k"
proof -
  have "length (filter (\<lambda>x. f x \<notin> f ` set (take k xs)) (drop k xs)) \<le> length (drop k xs)"
    by (rule length_filter_le)
  then show ?thesis
    by (simp add: filter_old_split [of f k xs])
qed


lemma save_message_None:
  "snd (save_message hl None d uid ch r c) =
     delete_many (insert_row d uid ch r c)
       (select_old_ids (insert_row d uid ch r c) uid ch (2 * hl))"
  by (simp add: save_message_def save_message_try_def Let_def delete_many_def mult.commute)

lemma save_message_cases:
  "snd (save_message hl fault d uid ch r c) = d
   \<or> snd (save_message hl fault d uid ch r c) = insert_row d uid ch r c
   \<or> snd (save_message hl fault d uid ch r c) =
       delete_many (insert_row d uid ch r c)
         (select_old_ids (insert_row d uid ch r c) uid ch (2 * hl))"
  by (simp add: save_message_def save_message_try_def Let_def mult.commute)

lemma stored_turns_trim:
  "stored_turns (delete_many d (select_old_ids d uid ch n)) uid ch =
     filter (\<lambda>x. rid x \<notin>
         rid ` set (take (length (stored_turns d uid ch) - n) (stored_turns d uid ch)))
       (stored_turns d uid ch)"
  by (simp add: delete_many_filter stored_turns_filter select_old_ids_set)

lemma save_message_bound:
  "length (key_rows (snd (save_message hl None d uid ch r c)) uid ch) \<le> 2 * hl"
proof -
  let ?S = "stored_turns (insert_row d uid ch r c) uid ch"
  have "length (stored_turns (snd (save_message hl None d uid ch r c)) uid ch)
      \<le> length ?S - (length ?S - 2 * hl)"
    unfolding save_message_None stored_turns_trim by (rule filter_old_upper)
  then show ?thesis
    by (simp add: length_stored_turns)
qed

section \<open>The retention window\<close>

lemma save_message_interrupted:
  "trim_interrupted fault \<Longrightarrow>
     snd (save_message hl fault d uid ch r c) = insert_row d uid ch r c"
  by (auto simp add: trim_interrupted_def save_message_def save_message_try_def Let_def)

lemma save_message_not_interrupted:
  "\<not> trim_interrupted fault \<Longrightarrow>
     snd (save_message hl fault d uid ch r c) = d
     \<or> snd (save_message hl fault d uid ch r c) = snd (save_message hl None d uid ch r c)"
  by (simp add: trim_interrupted_def save_message_def save_message_try_def Let_def
      delete_many_def)

lemma length_key_rows_insert_row:
  "length (key_rows (insert_row d uid ch r c) uid ch) = Suc (length (key_rows d uid ch))"
  by (simp add: key_rows_def insert_row_def)

lemma save_calls_bound:
  "length (key_rows d uid ch) \<le> 2 * hl \<Longrightarrow> \<forall>m \<in> set ms. \<not> trim_interrupted (fst m) \<Longrightarrow>
     \<forall>d' \<in> set (save_calls hl d uid ch ms). length (key_rows d' uid ch) \<le> 2 * hl"
proof (induction ms arbitrary: d)
  case Nil
  show ?case by simp
next
  case (Cons m ms)
  let ?d' = "snd (save_message hl (fst m) d uid ch (fst (snd m)) (snd (snd m)))"
  have "\<not> trim_interrupted (fst m)"
    using Cons.prems(2) by simp
  then have "?d' = d \<or> ?d' = snd (save_message hl None d uid ch (fst (snd m)) (snd (snd m)))"
    by (rule save_message_not_interrupted)
  then have step: "length (key_rows ?d' uid ch) \<le> 2 * hl"
    using Cons.prems(1) save_message_bound [of hl d uid ch "fst (snd m)" "snd (snd m)"]
    by auto
  moreover have "\<forall>d' \<in> set (save_calls hl ?d' uid ch ms). length (key_rows d' uid ch) \<le> 2 * hl"
    using step Cons.prems(2) by (intro Cons.IH) simp_all
  ultimately show ?case
    by (simp add: Let_def)
qed

text \<open>
  Claim C1, as stated: after each call of every sequence of \<^verbatim>\<open>save_message\<close> calls on
  one key, the key has at most \<open>2 * HISTORY_LENGTH\<close> rows. It fails with
  \<open>HISTORY_LENGTH = 1\<close> on three calls on an empty table, when the \<^verbatim>\<open>SELECT\<close> of the
  trim raises in the third: that call returns normally, its row is committed, nothing is
  deleted, and the key has three rows.
\<close>

theorem save_message_window_counterexample:
  "fst (save_message 1 (Some Execute_select)
        (last (save_calls 1 [] 7 ''c'' (butlast interrupted_calls))) 7 ''c'' ''user'' ''u2'')
     = Inr ()
   \<and> length (key_rows (last (save_calls 1 [] 7 ''c'' interrupted_calls)) 7 ''c'') = 3
   \<and> \<not> length (key_rows (last (save_calls 1 [] 7 ''c'' interrupted_calls)) 7 ''c'') \<le> 2 * 1"
  by code_simp

text \<open>
  Claim C1, amended. A \<^verbatim>\<open>save_message\<close> call in which the storage raises nothing leaves
  at most \<open>2 * HISTORY_LENGTH\<close> rows for its key, whatever the table was. For every sequence
  of \<^verbatim>\<open>save_message\<close> calls on one key that starts within the window and in which no
  call is interrupted between the commit of its insert and the commit of its trim, after
  each call the key has at most \<open>2 * HISTORY_LENGTH\<close> rows. A call interrupted there
  returns normally and leaves the table with the new row and without the trim, one row
  more for the key than before.
\<close>

theorem save_message_window_bound:
  "length (key_rows (snd (save_message hl None d uid ch r c)) uid ch) \<le> 2 * hl
   \<and> (length (key_rows d uid ch) \<le> 2 * hl \<longrightarrow>
        (\<forall>m \<in> set ms. \<not> trim_interrupted (fst m)) \<longrightarrow>
        (\<forall>d' \<in> set (save_calls hl d uid ch ms). length (key_rows d' uid ch) \<le> 2 * hl))
   \<and> (trim_interrupted fault \<longrightarrow>
        save_message hl fault d uid ch r c = (Inr (), insert_row d uid ch r c)
        \<and> length (key_rows (snd (save_message hl fault d uid ch r c)) uid ch) =
            Suc (length (key_rows d uid ch)))"
proof (intro conjI impI)
  show "length (key_rows (snd (save_message hl None d uid ch r c)) uid ch) \<le> 2 * hl"
    by (rule save_message_bound)
next
  assume "length (key_rows d uid ch) \<le> 2 * hl"
    and "\<forall>m \<in> set ms. \<not> trim_interrupted (fst m)"
  then show "\<forall>d' \<in> set (save_calls hl d uid ch ms). length (key_rows d' uid ch) \<le> 2 * hl"
    by (rule save_calls_bound)
next
  assume "trim_interrupted fault"
  then have eq: "snd (save_message hl fault d uid ch r c) = insert_row d uid ch r c"
    by (rule save_message_interrupted)
  then show "save_message hl fault d uid ch r c = (Inr (), insert_row d uid ch r c)"
    by (simp add: save_message_def split: prod.splits)
  show "length (key_rows (snd (save_message hl fault d uid ch r c)) uid ch) =
      Suc (length (key_rows d uid ch))"
    by (simp add: eq length_key_rows_insert_row)
qed

theorem save_message_window_bound_witness:
  "length (key_rows [] 7 ''c'') \<le> 2 * 1
   \<and> \<not> trim_interrupted None \<and> \<not> trim_interrupted (Some Connect)
   \<and> \<not> trim_interrupted (Some Close)
   \<and> last (save_calls 1 [] 7 ''c'' harmless_calls) \<in> set (save_calls 1 [] 7 ''c'' harmless_calls)
   \<and> length (key_rows (last (save_calls 1 [] 7 ''c'' harmless_calls)) 7 ''c'') \<le> 2 * 1
   \<and> length (key_rows (last (save_calls 1 [] 7 ''c'' harmless_calls)) 7 ''c'') = 2
   \<and> trim_interrupted (Some Execute_select)
   \<and> length (key_rows (snd (save_message 1 (Some Execute_select) sample_db 7 ''c'' ''user'' ''u3''))
        7 ''c'') = Suc (length (key_rows sample_db 7 ''c''))"
proof -
  have start: "length (key_rows [] 7 ''c'') \<le> 2 * 1"
    by (simp add: key_rows_def)
  have ok: "\<not> trim_interrupted None" "\<not> trim_interrupted (Some Connect)"
    "\<not> trim_interrupted (Some Close)"
    by (simp_all add: trim_interrupted_def)
  then have all: "\<forall>m \<in> set harmless_calls. \<not> trim_interrupted (fst m)"
    by (simp add: harmless_calls_def)
  have mem: "last (save_calls 1 [] 7 ''c'' harmless_calls)
      \<in> set (save_calls 1 [] 7 ''c'' harmless_calls)"
    by (simp add: harmless_calls_def Let_def)
  have two: "length (key_rows (last (save_calls 1 [] 7 ''c'' harmless_calls)) 7 ''c'') = 2"
    by code_simp
  have int: "trim_interrupted (Some Execute_select)"
    by (simp add: trim_interrupted_def)
  note th = save_message_window_bound [of 1 "[]" 7 "''c''" _ _ harmless_calls]
  have bound: "length (key_rows (last (save_calls 1 [] 7 ''c'' harmless_calls)) 7 ''c'') \<le> 2 * 1"
    using th start all mem by blast
  have more: "length (key_rows
        (snd (save_message 1 (Some Execute_select) sample_db 7 ''c'' ''user'' ''u3'')) 7 ''c'')
      = Suc (length (key_rows sample_db 7 ''c''))"
    using save_message_window_bound
      [of 1 sample_db 7 "''c''" "''user''" "''u3''" "[]" "Some Execute_select"] int
    by blast
  from start ok mem bound two int more show ?thesis
    by (intro conjI)
qed

section \<open>Reading the history\<close>

lemma history_loop:
  "foldl (\<lambda>h row. h @ [\<lparr>role = fst row, content = snd row\<rparr>]) h rows =
     h @ map (\<lambda>row. \<lparr>role = fst row, content = snd row\<rparr>) rows"
  by (induction rows arbitrary: h) auto

text \<open>The query with any limit, read backwards, is the spec's \<open>fetch_recent\<close>.\<close>

lemma select_recent_fetch:
  "map (\<lambda>row. \<lparr>role = fst row, content = snd row\<rparr>) (rev (select_recent d uid ch lim)) =
     fetch_recent d uid ch lim"
  by (simp add: select_recent_def fetch_recent_def stored_turns_def order_by_id_desc_def
      take_rev rev_map turn_message_def comp_def)

lemma get_history_try_None:
  "get_history_try hl None d uid ch h = ((None, h @ fetch_recent d uid ch (2 * hl)), d)"
  by (simp add: get_history_try_def history_loop select_recent_fetch mult.commute)

lemma get_history_try_Close:
  "get_history_try hl (Some Close) d uid ch h =
     ((Some (Sqlite_error Close), h @ fetch_recent d uid ch (2 * hl)), d)"
  by (simp add: get_history_try_def history_loop select_recent_fetch mult.commute)

lemma get_history_None:
  "get_history hl None d uid ch = (Inr (system_message # fetch_recent d uid ch (2 * hl)), d)"
  by (simp add: get_history_def get_history_try_None)

lemma fetch_recent_all:
  "length (key_rows d uid ch) \<le> limit \<Longrightarrow>
     fetch_recent d uid ch limit = map turn_message (stored_turns d uid ch)"
  by (simp add: fetch_recent_def length_stored_turns)

lemma get_history_state: "snd (get_history hl fault d uid ch) = d"
  by (simp add: get_history_def get_history_try_def Let_def)

lemma get_history_key_rows:
  "key_rows d uid ch = key_rows d' uid ch \<Longrightarrow>
     fst (get_history hl fault d uid ch) = fst (get_history hl fault d' uid ch)"
  by (simp add: get_history_def get_history_try_def Let_def select_recent_def)

text \<open>
  Claim C2, as stated: for every key and every limit, \<^verbatim>\<open>get_history\<close> returns the most
  recent \<open>limit\<close> turns of the key. It fails on the table \<open>sample_db\<close>, where user 7 has
  three turns in channel \<open>c\<close>: the method takes no limit, so it returns all three turns
  and not the most recent one, and its list starts with the system message, so it
  differs from the most recent 20 turns too.
\<close>

theorem get_history_limit_counterexample:
  "fst (get_history HISTORY_LENGTH None sample_db 7 ''c'') \<noteq>
     Inr (fetch_recent sample_db 7 ''c'' 1)
   \<and> fst (get_history HISTORY_LENGTH None sample_db 7 ''c'') \<noteq>
       Inr (fetch_recent sample_db 7 ''c'' (2 * HISTORY_LENGTH))"
  by code_simp

text \<open>
  Claim C2, amended. \<^verbatim>\<open>get_history\<close> takes no limit. For every key it returns the
  fixed system message followed by the most recent \<open>2 * HISTORY_LENGTH\<close> turns of the
  key in chronological order (oldest first), which are
  \<open>min (2 * HISTORY_LENGTH)\<close> of the number stored; when at most \<open>2 * HISTORY_LENGTH\<close>
  turns are stored it returns the system message followed by all of them. The table is
  left as it was.
\<close>

theorem get_history_recent:
  "get_history hl None d uid ch = (Inr (system_message # fetch_recent d uid ch (2 * hl)), d)
   \<and> length (fetch_recent d uid ch (2 * hl)) = min (2 * hl) (length (key_rows d uid ch))
   \<and> (length (key_rows d uid ch) \<le> 2 * hl \<longrightarrow>
        get_history hl None d uid ch =
          (Inr (system_message # map turn_message (stored_turns d uid ch)), d))"
  by (simp add: get_history_None fetch_recent_all) (simp add: fetch_recent_def length_stored_turns)

theorem get_history_recent_witness:
  "length (key_rows sample_db 7 ''c'') \<le> 2 * 10
   \<and> get_history 10 None sample_db 7 ''c'' =
       (Inr [system_message, \<lparr>role = ''user'', content = ''u1''\<rparr>,
          \<lparr>role = ''assistant'', content = ''a1''\<rparr>, \<lparr>role = ''user'', content = ''u2''\<rparr>],
        sample_db)"
proof -
  have len: "length (key_rows sample_db 7 ''c'') \<le> 2 * 10"
    by code_simp
  have "map turn_message (stored_turns sample_db 7 ''c'') =
      [\<lparr>role = ''user'', content = ''u1''\<rparr>, \<lparr>role = ''assistant'', content = ''a1''\<rparr>,
       \<lparr>role = ''user'', content = ''u2''\<rparr>]"
    by code_simp
  moreover have "get_history 10 None sample_db 7 ''c'' =
      (Inr (system_message # map turn_message (stored_turns sample_db 7 ''c'')), sample_db)"
    using len get_history_recent [of 10 sample_db 7 "''c''"] by blast
  ultimately show ?thesis
    using len by simp
qed

text \<open>
  Claim C3, as stated: with \<open>HISTORY_LENGTH = 2\<close>, after the six turns
  \<open>u1, a1, u2, a2, u3, a3\<close> are saved for one key in an empty table, reading the history
  returns exactly \<open>[u2, a2, u3, a3]\<close>. It fails: \<^verbatim>\<open>get_history\<close> returns five
  messages, the first of which is the system message.
\<close>

theorem six_turns_counterexample:
  "fst (get_history 2 None (last (save_trace 2 [] 7 ''c'' six_turns)) 7 ''c'') \<noteq>
     Inr [\<lparr>role = ''user'', content = ''u2''\<rparr>, \<lparr>role = ''assistant'', content = ''a2''\<rparr>,
          \<lparr>role = ''user'', content = ''u3''\<rparr>, \<lparr>role = ''assistant'', content = ''a3''\<rparr>]"
  by code_simp

text \<open>
  Claim C3, amended. With \<open>HISTORY_LENGTH = 2\<close>, after the six turns are saved for one
  key in an empty table, the table holds exactly the turns \<open>u2, a2, u3, a3\<close>, and
  \<^verbatim>\<open>get_history\<close> (which takes no limit and reads at most \<open>2 * HISTORY_LENGTH = 4\<close>
  turns) returns the system message followed by exactly \<open>[u2, a2, u3, a3]\<close>.
\<close>

theorem six_turns_history:
  "fst (get_history 2 None (last (save_trace 2 [] 7 ''c'' six_turns)) 7 ''c'') =
     Inr [system_message,
          \<lparr>role = ''user'', content = ''u2''\<rparr>, \<lparr>role = ''assistant'', content = ''a2''\<rparr>,
          \<lparr>role = ''user'', content = ''u3''\<rparr>, \<lparr>role = ''assistant'', content = ''a3''\<rparr>]
   \<and> map turn_message (last (save_trace 2 [] 7 ''c'' six_turns)) =
       [\<lparr>role = ''user'', content = ''u2''\<rparr>, \<lparr>role = ''assistant'', content = ''a2''\<rparr>,
        \<lparr>role = ''user'', content = ''u3''\<rparr>, \<lparr>role = ''assistant'', content = ''a3''\<rparr>]"
  by code_simp

section \<open>Storage faults\<close>

text \<open>
  Claim C4, as stated: a storage fault during \<^verbatim>\<open>save_message\<close> surfaces an error to the
  caller. It fails: when the \<^verbatim>\<open>INSERT\<close> raises on an empty table, the \<^verbatim>\<open>try\<close> block
  is left with the exception, and \<^verbatim>\<open>save_message\<close> still returns normally, with the
  table unchanged.
\<close>

theorem save_message_fault_counterexample:
  "save_message_try HISTORY_LENGTH (Some Execute_insert) [] 7 ''c'' ''user'' ''hi'' =
     (Some (Sqlite_error Execute_insert), [])
   \<and> save_message HISTORY_LENGTH (Some Execute_insert) [] 7 ''c'' ''user'' ''hi'' = (Inr (), [])"
  by code_simp

text \<open>
  Claim C4, amended. For every input, a storage fault during \<^verbatim>\<open>save_message\<close> is caught
  inside the method: whenever its \<^verbatim>\<open>try\<close> block raises, the method returns normally, no
  error reaches the caller, and the table is as the block left it.
\<close>

theorem save_message_swallows_fault:
  "save_message_try hl fault d uid ch r c = (Some e, d') \<Longrightarrow>
     save_message hl fault d uid ch r c = (Inr (), d')"
  by (simp add: save_message_def)

theorem save_message_swallows_fault_witness:
  "save_message_try 10 (Some Execute_select) sample_db 7 ''c'' ''user'' ''hi'' =
     (Some (Sqlite_error Execute_select), insert_row sample_db 7 ''c'' ''user'' ''hi'')
   \<and> save_message 10 (Some Execute_select) sample_db 7 ''c'' ''user'' ''hi'' =
       (Inr (), insert_row sample_db 7 ''c'' ''user'' ''hi'')"
proof -
  have t: "save_message_try 10 (Some Execute_select) sample_db 7 ''c'' ''user'' ''hi'' =
     (Some (Sqlite_error Execute_select), insert_row sample_db 7 ''c'' ''user'' ''hi'')"
    by (simp add: save_message_try_def)
  then show ?thesis
    using save_message_swallows_fault [OF t] by simp
qed

text \<open>
  Claim C5, as stated: a storage fault during \<^verbatim>\<open>get_history\<close> is not propagated and the
  call yields an empty history. The first half holds, the second fails: when the query
  raises, the list returned is not empty, it holds the system message.
\<close>

theorem get_history_fault_counterexample:
  "fst (get_history HISTORY_LENGTH (Some Execute_select) sample_db 7 ''c'') \<noteq> Inr []
   \<and> fst (get_history HISTORY_LENGTH (Some Execute_select) sample_db 7 ''c'') =
       Inr [system_message]"
  by (simp add: get_history_def get_history_try_def)

text \<open>
  Claim C5, amended. For every input, a storage fault during \<^verbatim>\<open>get_history\<close> is not
  propagated to the caller: the call completes, leaves the table as it was, and returns
  the list built so far. That is the system message alone when connecting or the query
  raises, and the system message followed by the turns read when only the closing of the
  connection raises.
\<close>

theorem get_history_fault_degrades:
  "get_history_try hl fault d uid ch [system_message] = ((Some e, h), d') \<Longrightarrow>
     get_history hl fault d uid ch = (Inr h, d)
     \<and> h = (if e = Sqlite_error Close then system_message # fetch_recent d uid ch (2 * hl)
            else [system_message])"
  by (auto simp add: get_history_def get_history_try_def Let_def history_loop
      select_recent_fetch mult.commute split: if_splits)

theorem get_history_fault_degrades_witness:
  "get_history_try 10 (Some Connect) sample_db 7 ''c'' [system_message] =
     ((Some (Sqlite_error Connect), [system_message]), sample_db)
   \<and> get_history 10 (Some Connect) sample_db 7 ''c'' = (Inr [system_message], sample_db)"
proof -
  have t: "get_history_try 10 (Some Connect) sample_db 7 ''c'' [system_message] =
     ((Some (Sqlite_error Connect), [system_message]), sample_db)"
    by (simp add: get_history_try_def)
  show ?thesis
    using t get_history_fault_degrades [OF t] by simp
qed

text \<open>
  Claim C6, as stated: \<^verbatim>\<open>get_history\<close> on a key with no stored turns returns an empty
  sequence. It fails on the empty table: the list returned holds the system message.
\<close>

theorem get_history_empty_counterexample:
  "key_rows [] 7 ''c'' = [] \<and> fst (get_history HISTORY_LENGTH None [] 7 ''c'') \<noteq> Inr []"
  by code_simp

text \<open>
  Claim C6, amended. \<^verbatim>\<open>get_history\<close> on a key with no stored turns does not fail with
  an error: it returns the list that holds the system message and no turn, whether or not
  the storage raises.
\<close>

theorem get_history_no_turns:
  "key_rows d uid ch = [] \<Longrightarrow> get_history hl fault d uid ch = (Inr [system_message], d)"
  by (simp add: get_history_def get_history_try_def Let_def select_recent_def
      order_by_id_desc_def)

theorem get_history_no_turns_witness:
  "key_rows sample_db 9 ''c'' = []
   \<and> get_history 10 None sample_db 9 ''c'' = (Inr [system_message], sample_db)"
proof -
  have k: "key_rows sample_db 9 ''c'' = []"
    by code_simp
  show ?thesis
    using k get_history_no_turns [OF k, of 10 None] by simp
qed

text \<open>
  Claim C9. \<^verbatim>\<open>get_history\<close> leaves the table as it was, so a second call with the same
  key, made right after the first under the same storage behaviour, returns the same list.
\<close>

theorem get_history_idempotent:
  "snd (get_history hl fault d uid ch) = d
   \<and> get_history hl fault (snd (get_history hl fault d uid ch)) uid ch =
       get_history hl fault d uid ch"
  by (simp add: get_history_state)

section \<open>The trim\<close>







section \<open>Distinct keys\<close>

lemma key_rows_insert_other:
  "(uidB, chB) \<noteq> (uidA, chA) \<Longrightarrow>
     key_rows (insert_row d uidA chA r c) uidB chB = key_rows d uidB chB"
  by (auto simp add: key_rows_def insert_row_def)

lemma old_ids_of_key:
  "i \<in> set (select_old_ids d uid ch n) \<Longrightarrow> \<exists>y \<in> set (key_rows d uid ch). rid y = i"
proof -
  assume "i \<in> set (select_old_ids d uid ch n)"
  then obtain y
    where "y \<in> set (take (length (stored_turns d uid ch) - n) (stored_turns d uid ch))"
      and "rid y = i"
    unfolding select_old_ids_set by blast
  then show ?thesis
    using set_stored_turns [of d uid ch] in_set_takeD by fastforce
qed

lemma key_rows_trim_other:
  assumes dist: "distinct (map rid d)" and ne: "(uidB, chB) \<noteq> (uidA, chA)"
  shows "key_rows (delete_many d (select_old_ids d uidA chA n)) uidB chB = key_rows d uidB chB"
proof -
  have inj: "inj_on rid (set d)"
    using dist by (simp add: distinct_map)
  have "rid x \<notin> set (select_old_ids d uidA chA n)" if x: "x \<in> set (key_rows d uidB chB)" for x
  proof
    assume "rid x \<in> set (select_old_ids d uidA chA n)"
    then obtain y where y: "y \<in> set (key_rows d uidA chA)" and eq: "rid y = rid x"
      using old_ids_of_key by blast
    have "x \<in> set d" and "y \<in> set d"
      using x y by (simp_all add: key_rows_def)
    with inj eq have "y = x"
      by (simp add: inj_on_def)
    with x y ne show False
      by (simp add: key_rows_def)
  qed
  then show ?thesis
    by (simp add: delete_many_filter key_rows_filter)
qed

lemma save_message_key_rows_other:
  assumes dist: "distinct (map rid d)" and ne: "(uidB, chB) \<noteq> (uidA, chA)"
  shows "key_rows (snd (save_message hl fault d uidA chA r c)) uidB chB = key_rows d uidB chB"
proof -
  have ins: "key_rows (insert_row d uidA chA r c) uidB chB = key_rows d uidB chB"
    using ne by (rule key_rows_insert_other)
  have trim: "key_rows (delete_many (insert_row d uidA chA r c)
        (select_old_ids (insert_row d uidA chA r c) uidA chA (2 * hl))) uidB chB
      = key_rows d uidB chB"
    using key_rows_trim_other [OF distinct_insert_row [OF dist] ne] ins by simp
  from save_message_cases [of hl fault d uidA chA r c] ins trim show ?thesis
    by (elim disjE) simp_all
qed

text \<open>
  Claim C8. Let the keys of the table be distinct and let A and B be two different pairs of
  user and channel. A call of \<^verbatim>\<open>save_message\<close> for A, with or without a storage fault,
  leaves the rows stored for B as they were: the same rows in the same order, hence the
  same count, the same turns in chronological order, and the same result of
  \<^verbatim>\<open>get_history\<close> for B.
\<close>

theorem save_message_frame:
  assumes "distinct (map rid d)" and "(uidB, chB) \<noteq> (uidA, chA)"
  shows "key_rows (snd (save_message hl fault d uidA chA r c)) uidB chB = key_rows d uidB chB
    \<and> stored_turns (snd (save_message hl fault d uidA chA r c)) uidB chB =
        stored_turns d uidB chB
    \<and> fst (get_history hl' fault' (snd (save_message hl fault d uidA chA r c)) uidB chB) =
        fst (get_history hl' fault' d uidB chB)"
proof -
  have k: "key_rows (snd (save_message hl fault d uidA chA r c)) uidB chB = key_rows d uidB chB"
    using assms by (rule save_message_key_rows_other)
  show ?thesis
    using k get_history_key_rows [OF k, of hl' fault'] by (simp add: stored_turns_def)
qed

theorem save_message_frame_witness:
  "distinct (map rid sample_db) \<and> (8, ''c'') \<noteq> (7::int, ''c'')
   \<and> key_rows (snd (save_message 1 None sample_db 7 ''c'' ''assistant'' ''a2'')) 8 ''c'' =
       [\<lparr>rid = 2, ruser_id = 8, rchannel_name = ''c'', rrole = ''user'', rcontent = ''x1''\<rparr>]
   \<and> length (key_rows (snd (save_message 1 None sample_db 7 ''c'' ''assistant'' ''a2'')) 7 ''c'')
       = 2"
proof -
  have dist: "distinct (map rid sample_db)"
    by code_simp
  have ne: "(8, ''c'') \<noteq> (7::int, ''c'')"
    by simp
  have k: "key_rows sample_db 8 ''c'' =
      [\<lparr>rid = 2, ruser_id = 8, rchannel_name = ''c'', rrole = ''user'', rcontent = ''x1''\<rparr>]"
    by code_simp
  have l: "length (key_rows (snd (save_message 1 None sample_db 7 ''c'' ''assistant'' ''a2'')) 7 ''c'')
       = 2"
    by code_simp
  have "key_rows (snd (save_message 1 None sample_db 7 ''c'' ''assistant'' ''a2'')) 8 ''c'' =
      key_rows sample_db 8 ''c''"
    by (rule conjunct1 [OF save_message_frame [OF dist ne]])
  then have f: "key_rows (snd (save_message 1 None sample_db 7 ''c'' ''assistant'' ''a2'')) 8 ''c'' =
      [\<lparr>rid = 2, ruser_id = 8, rchannel_name = ''c'', rrole = ''user'', rcontent = ''x1''\<rparr>]"
    using k by (rule trans)
  from dist ne f l show ?thesis
    by (intro conjI)
qed

section \<open>Removing a gift code\<close>

text \<open>
  Claim C10. For every gift code, \<^verbatim>\<open>remove_giftcode\<close> called with
  \<^verbatim>\<open>from_validation=False\<close> returns \<^verbatim>\<open>False\<close>, leaves the tables \<^verbatim>\<open>gift_codes\<close> and
  \<^verbatim>\<open>user_giftcodes\<close> as they were and issues no request, whatever the remote API would
  answer.
\<close>

theorem remove_giftcode_not_from_validation:
  "remove_giftcode json_loads reply db_fault g giftcode False = (False, g, [])"
  by (simp add: remove_giftcode_def)

end
